theory Spec2Isabelle
  imports Complex_Main "HOL-Library.Word"
begin

section \<open>The MNIST loader (mnist\_loader.py)\<close>

text \<open>
  The loader reads two IDX files. Locating, downloading and decompressing a file is glue
  around the decoder: the model starts from the decompressed contents of the file, the byte
  sequence that \<^verbatim>\<open>gzip.open(gzfname)\<close> delivers. A file object is the list of the
  bytes not yet read; a read returns the bytes taken and the file object after them.
\<close>

type_synonym byte = "8 word"

subsection \<open>Exceptions\<close>

text \<open>
  The exceptions a call can end with. \<open>PyException fmt args\<close> is the source's
  \<^verbatim>\<open>Exception(fmt.format(*args))\<close>: the text of the message and the values formatted
  into it. \<open>StructError\<close> is \<^verbatim>\<open>struct.error\<close> (a buffer of the wrong size),
  \<open>ValueError\<close> and \<open>IndexError\<close> come from the file object and from numpy,
  \<open>MemoryError\<close> from a buffer that the host cannot allocate, and
  \<open>UnboundLocalError v\<close> is the read of a local variable \<open>v\<close> that has no value yet.
\<close>

datatype py_exc =
    PyException string "int list"
  | StructError
  | ValueError
  | IndexError
  | MemoryError
  | UnboundLocalError string

subsection \<open>struct.unpack and the file object\<close>

datatype byteorder = LittleEndian | BigEndian

text \<open>The unsigned integer whose base-256 digits are the bytes, most significant first.\<close>

definition be_uint :: "byte list \<Rightarrow> int" where
  "be_uint bs = foldl (\<lambda>a b. a * 256 + uint b) 0 bs"

text \<open>
  \<^verbatim>\<open>struct.unpack('>I', b)[0]\<close> is \<open>struct_unpack BigEndian b\<close>. The format
  \<^verbatim>\<open>'I'\<close> without a prefix uses the byte order of the machine that runs the loader,
  which is a parameter \<open>host\<close> of the model: \<^verbatim>\<open>struct.unpack('I', b)[0]\<close> is
  \<open>struct_unpack host b\<close>. A buffer that is not 4 bytes long raises \<^verbatim>\<open>struct.error\<close>.
\<close>

definition struct_unpack :: "byteorder \<Rightarrow> byte list \<Rightarrow> py_exc + int" where
  "struct_unpack order b =
     (if length b \<noteq> 4 then Inl StructError
      else Inr (be_uint (case order of BigEndian \<Rightarrow> b | LittleEndian \<Rightarrow> rev b)))"

text \<open>
  \<^verbatim>\<open>gz.read(k)\<close>: up to \<open>k\<close> bytes, fewer when the file ends first; everything
  that is left for \<open>k = -1\<close>; a \<^verbatim>\<open>ValueError\<close> for any other negative \<open>k\<close>.
  The read allocates a buffer of \<open>k\<close> bytes before it fills it, and raises
  \<^verbatim>\<open>MemoryError\<close> when the host cannot allocate that much. The largest buffer the
  host grants is a parameter \<open>mem\<close> of the model. The host holds the bytes of the stream
  it reads, so a read of no more than the bytes that are left is granted whatever \<open>mem\<close>
  is: \<^verbatim>\<open>MemoryError\<close> is the outcome of a read that asks for more than the file has
  left and for more than \<open>mem\<close>.
\<close>

definition gz_read :: "nat \<Rightarrow> int \<Rightarrow> byte list \<Rightarrow> py_exc + (byte list \<times> byte list)" where
  "gz_read mem k gz =
     (if k < - 1 then Inl ValueError
      else if k = - 1 then Inr (gz, [])
      else if length gz < nat k \<and> mem < nat k then Inl MemoryError
      else Inr (take (nat k) gz, drop (nat k) gz))"

text \<open>
  \<^verbatim>\<open>struct.unpack(fmt, gz.read(4))[0]\<close>, with the file object after the read. A read
  of 4 bytes is granted on every host.
\<close>

definition read_u32 :: "byteorder \<Rightarrow> byte list \<Rightarrow> (py_exc + int) \<times> byte list" where
  "read_u32 order gz = (struct_unpack order (take 4 gz), drop 4 gz)"

subsection \<open>numpy arrays\<close>

text \<open>
  A two-dimensional array is the list of its rows. \<open>chunks a b xs\<close> cuts \<open>a\<close> rows of
  \<open>b\<close> elements from the front of \<open>xs\<close>, in order (numpy's row-major layout).
\<close>

fun chunks :: "nat \<Rightarrow> nat \<Rightarrow> 'a list \<Rightarrow> 'a list list" where
  "chunks 0 b xs = []"
| "chunks (Suc a) b xs = take b xs # chunks a b (drop b xs)"

text \<open>
  \<^verbatim>\<open>arr.reshape((a, b))\<close> of a one-dimensional array: one of the two dimensions may be
  \<open>-1\<close> and is then inferred from the size; any other negative dimension, and a shape
  whose size is not the size of the array, is a \<^verbatim>\<open>ValueError\<close>.
\<close>

definition np_reshape :: "'a list \<Rightarrow> int \<Rightarrow> int \<Rightarrow> py_exc + 'a list list" where
  "np_reshape arr a b =
     (let total = int (length arr) in
      if a < - 1 \<or> b < - 1 \<or> (a = - 1 \<and> b = - 1) then Inl ValueError
      else if a = - 1 then
        (if b = 0 \<or> total mod b \<noteq> 0 then Inl ValueError
         else Inr (chunks (nat (total div b)) (nat b) arr))
      else if b = - 1 then
        (if a = 0 \<or> total mod a \<noteq> 0 then Inl ValueError
         else Inr (chunks (nat a) (nat (total div a)) arr))
      else if a * b \<noteq> total then Inl ValueError
      else Inr (chunks (nat a) (nat b) arr))"

text \<open>
  An index into the first axis: a Python integer or an array of integers. A negative index
  counts from the end; an index outside \<open>[-n, n)\<close> is an \<^verbatim>\<open>IndexError\<close>.
  \<open>np_setitem e j v\<close> is \<^verbatim>\<open>e[j] = v\<close> on an array \<open>e\<close> of shape \<open>(n, 1)\<close>, kept as the
  list of the single values of its rows.
\<close>

datatype np_index = Scalar int | IntArray "int list"

fun index_list :: "np_index \<Rightarrow> int list" where
  "index_list (Scalar j) = [j]"
| "index_list (IntArray js) = js"

definition np_setitem :: "real list \<Rightarrow> np_index \<Rightarrow> real \<Rightarrow> py_exc + real list" where
  "np_setitem e j v =
     (let n = int (length e); js = index_list j in
      if \<exists>i \<in> set js. i < - n \<or> n \<le> i then Inl IndexError
      else Inr (foldl (\<lambda>arr i. arr[nat (if i < 0 then i + n else i) := v]) e js))"

subsection \<open>loadImages\<close>

text \<open>The local variables the \<^verbatim>\<open>finally\<close> blocks read.\<close>

record lbl_locals =
  n_images :: int
  res :: "byte list"

record img_locals = lbl_locals +
  n_rows :: int
  n_cols :: int

text \<open>
  The body of the \<^verbatim>\<open>try\<close> statement of \<^verbatim>\<open>loadImages\<close>: the exception it raises, or
  the local variables when it runs to its end, and in both cases the file object as the
  body leaves it. The argument \<^verbatim>\<open>n_images\<close> is \<open>None\<close> or an integer.
  \<^verbatim>\<open>np.frombuffer(b, dtype = np.uint8)\<close> is the array of the bytes of \<open>b\<close>.
\<close>

definition loadImages_try ::
  "byteorder \<Rightarrow> nat \<Rightarrow> byte list \<Rightarrow> int option
     \<Rightarrow> (py_exc + img_locals) \<times> byte list" where
  "loadImages_try host mem gz n_images_arg =
     (case read_u32 host gz of
        (Inl e, gz1) \<Rightarrow> (Inl e, gz1)
      | (Inr magic, gz1) \<Rightarrow>
          if magic \<noteq> 0x03080000
          then (Inl (PyException ''Invalid file: unexpected magic number.'' []), gz1)
          else
            (case read_u32 BigEndian gz1 of
               (Inl e, gz2) \<Rightarrow> (Inl e, gz2)
             | (Inr n, gz2) \<Rightarrow>
                 (case (case n_images_arg of
                          None \<Rightarrow> Inr n
                        | Some k \<Rightarrow>
                            if k > n
                            then Inl (PyException
                                   ''Unable to read {0} entries from data file.'' [k])
                            else Inr k) of
                    Inl e \<Rightarrow> (Inl e, gz2)
                  | Inr count \<Rightarrow>
                      (case read_u32 BigEndian gz2 of
                         (Inl e, gz3) \<Rightarrow> (Inl e, gz3)
                       | (Inr rows, gz3) \<Rightarrow>
                           (case read_u32 BigEndian gz3 of
                              (Inl e, gz4) \<Rightarrow> (Inl e, gz4)
                            | (Inr cols, gz4) \<Rightarrow>
                                if rows \<noteq> 28 \<or> cols \<noteq> 28
                                then (Inl (PyException
                                       ''Invalid file: expected 28 rows & cols per img'' []),
                                      gz4)
                                else
                                  (case gz_read mem (count * rows * cols) gz4 of
                                     Inl e \<Rightarrow> (Inl e, gz4)
                                   | Inr (buf, gz5) \<Rightarrow>
                                       (Inr \<lparr>n_images = count, res = buf,
                                             n_rows = rows, n_cols = cols\<rparr>, gz5)))))))"

text \<open>
  The whole function. The \<^verbatim>\<open>finally\<close> block runs on both exits of the body and returns
  \<^verbatim>\<open>res.reshape((n_images, n_rows * n_cols))\<close>. \<^verbatim>\<open>res\<close> is assigned by the last
  statement of the body, so after an exception it has no value and the block raises
  \<^verbatim>\<open>UnboundLocalError\<close> in place of the exception of the body.
\<close>

definition loadImages ::
  "byteorder \<Rightarrow> nat \<Rightarrow> byte list \<Rightarrow> int option \<Rightarrow> py_exc + byte list list" where
  "loadImages host mem gz n_images_arg =
     (case fst (loadImages_try host mem gz n_images_arg) of
        Inl e \<Rightarrow> Inl (UnboundLocalError ''res'')
      | Inr l \<Rightarrow> np_reshape (res l) (n_images l) (n_rows l * n_cols l))"

subsection \<open>loadLabels\<close>

definition loadLabels_try ::
  "byteorder \<Rightarrow> nat \<Rightarrow> byte list \<Rightarrow> int option
     \<Rightarrow> (py_exc + lbl_locals) \<times> byte list" where
  "loadLabels_try host mem gz n_images_arg =
     (case read_u32 host gz of
        (Inl e, gz1) \<Rightarrow> (Inl e, gz1)
      | (Inr magic, gz1) \<Rightarrow>
          if magic \<noteq> 0x01080000
          then (Inl (PyException ''Invalid file: unexpected magic number.'' []), gz1)
          else
            (case read_u32 BigEndian gz1 of
               (Inl e, gz2) \<Rightarrow> (Inl e, gz2)
             | (Inr n, gz2) \<Rightarrow>
                 (case (case n_images_arg of
                          None \<Rightarrow> Inr n
                        | Some k \<Rightarrow>
                            if k > n
                            then Inl (PyException
                                   ''Unable to read {0} entires from label file.'' [k])
                            else Inr k) of
                    Inl e \<Rightarrow> (Inl e, gz2)
                  | Inr count \<Rightarrow>
                      (case gz_read mem count gz2 of
                         Inl e \<Rightarrow> (Inl e, gz2)
                       | Inr (buf, gz3) \<Rightarrow> (Inr \<lparr>n_images = count, res = buf\<rparr>, gz3)))))"

definition loadLabels ::
  "byteorder \<Rightarrow> nat \<Rightarrow> byte list \<Rightarrow> int option \<Rightarrow> py_exc + byte list list" where
  "loadLabels host mem gz n_images_arg =
     (case fst (loadLabels_try host mem gz n_images_arg) of
        Inl e \<Rightarrow> Inl (UnboundLocalError ''res'')
      | Inr l \<Rightarrow> np_reshape (res l) (n_images l) 1)"

subsection \<open>vectorized\_digit and mnist\_load\<close>

text \<open>
  \<^verbatim>\<open>np.zeros((10, 1))\<close> with \<^verbatim>\<open>e[j] = 1.0\<close>. The values 0.0 and 1.0 are exact, and
  nothing is computed with them.
\<close>

definition vectorized_digit :: "np_index \<Rightarrow> py_exc + real list" where
  "vectorized_digit j = np_setitem (replicate 10 0) j 1"

text \<open>
  The loop of \<^verbatim>\<open>mnist_load\<close>: each \<^verbatim>\<open>label\<close> is a row of the array of labels, a
  one-element array of unsigned bytes, and is used as the index.
\<close>

fun vectorize_loop :: "byte list list \<Rightarrow> real list list \<Rightarrow> py_exc + real list list" where
  "vectorize_loop [] vectorized_labels = Inr vectorized_labels"
| "vectorize_loop (label # labels) vectorized_labels =
     (case vectorized_digit (IntArray (map uint label)) of
        Inl e \<Rightarrow> Inl e
      | Inr vd \<Rightarrow> vectorize_loop labels (vectorized_labels @ [vd]))"

definition mnist_load ::
  "byteorder \<Rightarrow> nat \<Rightarrow> byte list \<Rightarrow> byte list \<Rightarrow> int option
     \<Rightarrow> py_exc + (byte list list \<times> real list list)" where
  "mnist_load host mem imageSrc labelsSrc n_images_arg =
     (case loadImages host mem imageSrc n_images_arg of
        Inl e \<Rightarrow> Inl e
      | Inr images \<Rightarrow>
          (case loadLabels host mem labelsSrc n_images_arg of
             Inl e \<Rightarrow> Inl e
           | Inr labels \<Rightarrow>
               (case vectorize_loop labels [] of
                  Inl e \<Rightarrow> Inl e
                | Inr vectorized_labels \<Rightarrow> Inr (images, vectorized_labels))))"

subsection \<open>The fields of a header\<close>

text \<open>
  The 4 bytes at offset \<open>off\<close> of a stream, read as a big-endian unsigned integer, and the
  count a call asks for: the argument, or the declared count when there is none.
\<close>

definition be_u32_at :: "byte list \<Rightarrow> nat \<Rightarrow> int" where
  "be_u32_at s off = be_uint (take 4 (drop off s))"

definition requestedCount :: "int option \<Rightarrow> int \<Rightarrow> int" where
  "requestedCount n_images_arg declared = (case n_images_arg of None \<Rightarrow> declared | Some k \<Rightarrow> k)"

section \<open>Properties\<close>

subsection \<open>Reading the header\<close>

lemma digit_unique:
  fixes q q' d d' :: int
  assumes "0 \<le> d" "d < 256" "0 \<le> d'" "d' < 256"
  shows "(q * 256 + d = q' * 256 + d') = (q = q' \<and> d = d')"
proof
  assume eq: "q * 256 + d = q' * 256 + d'"
  have "(q * 256 + d) div 256 = q" "(q * 256 + d) mod 256 = d"
    using assms by simp_all
  moreover have "(q' * 256 + d') div 256 = q'" "(q' * 256 + d') mod 256 = d'"
    using assms by simp_all
  ultimately show "q = q' \<and> d = d'" using eq by metis
qed simp

lemma length4E:
  assumes "length (b :: 'a list) = 4"
  obtains w x y z where "b = [w, x, y, z]"
  using assms by (auto simp: length_Suc_conv numeral_eq_Suc)

lemma byte_bounds: "0 \<le> uint (w :: byte)" "uint (w :: byte) < 256"
  using uint_lt2p [of w] by simp_all

lemma be_uint4: "be_uint [w, x, y, z] = ((uint w * 256 + uint x) * 256 + uint y) * 256 + uint z"
  by (simp add: be_uint_def)

lemma be_uint4_eq:
  assumes "0 \<le> b" "b < 256" "0 \<le> c" "c < 256" "0 \<le> d" "d < 256"
  shows "(be_uint [w, x, y, z] = ((a * 256 + b) * 256 + c) * 256 + d)
           = (uint w = a \<and> uint x = b \<and> uint y = c \<and> uint z = d)"
proof -
  have "(be_uint [w, x, y, z] = ((a * 256 + b) * 256 + c) * 256 + d)
          = ((uint w * 256 + uint x) * 256 + uint y = (a * 256 + b) * 256 + c \<and> uint z = d)"
    unfolding be_uint4 by (rule digit_unique) (use assms byte_bounds in blast)+
  also have "((uint w * 256 + uint x) * 256 + uint y = (a * 256 + b) * 256 + c)
          = (uint w * 256 + uint x = a * 256 + b \<and> uint y = c)"
    by (rule digit_unique) (use assms byte_bounds in blast)+
  also have "(uint w * 256 + uint x = a * 256 + b) = (uint w = a \<and> uint x = b)"
    by (rule digit_unique) (use assms byte_bounds in blast)+
  finally show ?thesis by blast
qed

lemma magic_image:
  assumes "length b = 4"
  shows "(be_uint (rev b) = 0x03080000) = (be_uint b = 0x803)"
proof -
  from assms obtain w x y z where b: "b = [w, x, y, z]" by (rule length4E)
  have 1: "(0x03080000 :: int) = ((3 * 256 + 8) * 256 + 0) * 256 + 0" by simp
  have 2: "(0x803 :: int) = ((0 * 256 + 0) * 256 + 8) * 256 + 3" by simp
  have "(be_uint [z, y, x, w] = 0x03080000) = (uint z = 3 \<and> uint y = 8 \<and> uint x = 0 \<and> uint w = 0)"
    unfolding 1 by (rule be_uint4_eq) simp_all
  moreover have "(be_uint [w, x, y, z] = 0x803) = (uint w = 0 \<and> uint x = 0 \<and> uint y = 8 \<and> uint z = 3)"
    unfolding 2 by (rule be_uint4_eq) simp_all
  ultimately show ?thesis unfolding b by auto
qed

lemma magic_label:
  assumes "length b = 4"
  shows "(be_uint (rev b) = 0x01080000) = (be_uint b = 0x801)"
proof -
  from assms obtain w x y z where b: "b = [w, x, y, z]" by (rule length4E)
  have 1: "(0x01080000 :: int) = ((1 * 256 + 8) * 256 + 0) * 256 + 0" by simp
  have 2: "(0x801 :: int) = ((0 * 256 + 0) * 256 + 8) * 256 + 1" by simp
  have "(be_uint [z, y, x, w] = 0x01080000) = (uint z = 1 \<and> uint y = 8 \<and> uint x = 0 \<and> uint w = 0)"
    unfolding 1 by (rule be_uint4_eq) simp_all
  moreover have "(be_uint [w, x, y, z] = 0x801) = (uint w = 0 \<and> uint x = 0 \<and> uint y = 8 \<and> uint z = 1)"
    unfolding 2 by (rule be_uint4_eq) simp_all
  ultimately show ?thesis unfolding b by auto
qed

lemma be_u32_at_drop: "be_u32_at (drop k s) off = be_u32_at s (off + k)"
  by (simp add: be_u32_at_def)

lemma read_u32_BE:
  "4 \<le> length gz \<Longrightarrow> read_u32 BigEndian gz = (Inr (be_u32_at gz 0), drop 4 gz)"
  by (simp add: read_u32_def struct_unpack_def be_u32_at_def)

lemma read_u32_LE:
  "4 \<le> length gz \<Longrightarrow> read_u32 LittleEndian gz = (Inr (be_uint (rev (take 4 gz))), drop 4 gz)"
  by (simp add: read_u32_def struct_unpack_def)

lemma magic_image_at:
  "4 \<le> length gz \<Longrightarrow> (be_uint (rev (take 4 gz)) = 0x03080000) = (be_u32_at gz 0 = 0x803)"
  by (simp add: magic_image be_u32_at_def)

lemma magic_label_at:
  "4 \<le> length gz \<Longrightarrow> (be_uint (rev (take 4 gz)) = 0x01080000) = (be_u32_at gz 0 = 0x801)"
  by (simp add: magic_label be_u32_at_def)

lemma foldl_digits_nonneg: "0 \<le> a \<Longrightarrow> 0 \<le> foldl (\<lambda>a (b :: byte). a * 256 + uint b) a bs"
  by (induction bs arbitrary: a) simp_all

lemma be_uint_nonneg: "0 \<le> be_uint bs"
  by (simp add: be_uint_def foldl_digits_nonneg)

lemma be_u32_at_nonneg: "0 \<le> be_u32_at s off"
  by (simp add: be_u32_at_def be_uint_nonneg)

subsection \<open>The rows of a reshaped array\<close>

lemma length_chunks: "length (chunks a b xs) = a"
  by (induction a arbitrary: xs) simp_all

lemma chunks_nth: "i < a \<Longrightarrow> chunks a b xs ! i = take b (drop (i * b) xs)"
proof (induction a arbitrary: xs i)
  case 0
  then show ?case by simp
next
  case (Suc a)
  show ?case
  proof (cases i)
    case 0
    then show ?thesis by simp
  next
    case (Suc j)
    with Suc.prems have "j < a" by simp
    from Suc.IH [OF this] show ?thesis using Suc by (simp add: add.commute)
  qed
qed

lemma chunks_take: "chunks a b (take (a * b) xs) = chunks a b xs"
proof (induction a arbitrary: xs)
  case 0
  then show ?case by simp
next
  case (Suc a)
  have "drop b (take (Suc a * b) xs) = take (a * b) (drop b xs)"
    by (simp add: drop_take)
  with Suc [of "drop b xs"] show ?case by simp
qed

lemma np_reshape_rows:
  assumes "0 \<le> a" "0 \<le> b"
  shows "np_reshape arr a b
           = (if a * b = int (length arr) then Inr (chunks (nat a) (nat b) arr) else Inl ValueError)"
  using assms by (auto simp: np_reshape_def Let_def)

subsection \<open>The body of loadImages on a little-endian host\<close>

lemma loadImages_try_magic:
  assumes "4 \<le> length s" "be_u32_at s 0 \<noteq> 0x803"
  shows "loadImages_try LittleEndian mem s a
           = (Inl (PyException ''Invalid file: unexpected magic number.'' []), drop 4 s)"
  using assms by (simp add: loadImages_try_def read_u32_LE magic_image_at)

lemma loadImages_try_count:
  assumes "8 \<le> length s" "be_u32_at s 0 = 0x803" "k > be_u32_at s 4"
  shows "loadImages_try LittleEndian mem s (Some k)
           = (Inl (PyException ''Unable to read {0} entries from data file.'' [k]), drop 8 s)"
  using assms
  by (simp add: loadImages_try_def read_u32_LE magic_image_at read_u32_BE be_u32_at_drop)

lemma loadImages_try_dims:
  assumes "16 \<le> length s" "be_u32_at s 0 = 0x803"
    and "requestedCount a (be_u32_at s 4) \<le> be_u32_at s 4"
    and "be_u32_at s 8 \<noteq> 28 \<or> be_u32_at s 12 \<noteq> 28"
  shows "loadImages_try LittleEndian mem s a
           = (Inl (PyException ''Invalid file: expected 28 rows & cols per img'' []), drop 16 s)"
  using assms
  by (auto simp add: loadImages_try_def read_u32_LE magic_image_at read_u32_BE be_u32_at_drop
      requestedCount_def split: option.splits)

lemma loadImages_try_negative:
  assumes "16 \<le> length s" "be_u32_at s 0 = 0x803"
    and "requestedCount a (be_u32_at s 4) \<le> be_u32_at s 4"
    and "be_u32_at s 8 = 28" "be_u32_at s 12 = 28"
    and "requestedCount a (be_u32_at s 4) < 0"
  shows "loadImages_try LittleEndian mem s a = (Inl ValueError, drop 16 s)"
  using assms
  by (auto simp add: loadImages_try_def read_u32_LE magic_image_at read_u32_BE be_u32_at_drop
      requestedCount_def gz_read_def split: option.splits)

lemma loadImages_try_ok:
  assumes "16 \<le> length s" "be_u32_at s 0 = 0x803"
    and "requestedCount a (be_u32_at s 4) \<le> be_u32_at s 4"
    and "be_u32_at s 8 = 28" "be_u32_at s 12 = 28"
    and "0 \<le> requestedCount a (be_u32_at s 4)"
    and "16 + nat (requestedCount a (be_u32_at s 4)) * 784 \<le> length s
           \<or> nat (requestedCount a (be_u32_at s 4)) * 784 \<le> mem"
  shows "loadImages_try LittleEndian mem s a
           = (Inr \<lparr>n_images = requestedCount a (be_u32_at s 4),
                   res = take (nat (requestedCount a (be_u32_at s 4)) * 784) (drop 16 s),
                   n_rows = 28, n_cols = 28\<rparr>,
              drop (16 + nat (requestedCount a (be_u32_at s 4)) * 784) s)"
  using assms
  by (auto simp add: loadImages_try_def read_u32_LE magic_image_at read_u32_BE be_u32_at_drop
      requestedCount_def gz_read_def nat_mult_distrib mult.commute add.commute
      split: option.splits)

lemma loadImages_try_memory:
  assumes "16 \<le> length s" "be_u32_at s 0 = 0x803"
    and "requestedCount a (be_u32_at s 4) \<le> be_u32_at s 4"
    and "be_u32_at s 8 = 28" "be_u32_at s 12 = 28"
    and "0 \<le> requestedCount a (be_u32_at s 4)"
    and "length s < 16 + nat (requestedCount a (be_u32_at s 4)) * 784"
    and "mem < nat (requestedCount a (be_u32_at s 4)) * 784"
  shows "loadImages_try LittleEndian mem s a = (Inl MemoryError, drop 16 s)"
  using assms
  by (auto simp add: loadImages_try_def read_u32_LE magic_image_at read_u32_BE be_u32_at_drop
      requestedCount_def gz_read_def nat_mult_distrib mult.commute add.commute
      split: option.splits)

lemma loadImages_try_header_short:
  "length s < 16 \<Longrightarrow> \<exists>e. fst (loadImages_try host mem s a) = Inl e"
  by (auto simp: loadImages_try_def read_u32_def struct_unpack_def
      split: option.splits sum.splits)

subsection \<open>loadImages on a little-endian host\<close>

lemma loadImages_raises:
  "fst (loadImages_try host mem s a) = Inl e \<Longrightarrow> loadImages host mem s a = Inl (UnboundLocalError ''res'')"
  by (simp add: loadImages_def)

lemma loadImages_ok:
  assumes "16 \<le> length s" "be_u32_at s 0 = 0x803"
    and "requestedCount a (be_u32_at s 4) \<le> be_u32_at s 4"
    and "be_u32_at s 8 = 28" "be_u32_at s 12 = 28"
    and "0 \<le> requestedCount a (be_u32_at s 4)"
  shows "loadImages LittleEndian mem s a
           = (if 16 + nat (requestedCount a (be_u32_at s 4)) * 784 \<le> length s
              then Inr (chunks (nat (requestedCount a (be_u32_at s 4))) 784 (drop 16 s))
              else if nat (requestedCount a (be_u32_at s 4)) * 784 \<le> mem
              then Inl ValueError
              else Inl (UnboundLocalError ''res''))"
proof -
  define n where "n = nat (requestedCount a (be_u32_at s 4))"
  have req: "requestedCount a (be_u32_at s 4) = int n"
    using assms(6) by (simp add: n_def)
  show ?thesis
  proof (cases "16 + n * 784 \<le> length s \<or> n * 784 \<le> mem")
    case True
    have complete: "(int n * 784 = int (length (take (n * 784) (drop 16 s))))
                      = (16 + n * 784 \<le> length s)"
      using assms(1) by (auto simp: min_def)
    have "loadImages LittleEndian mem s a = np_reshape (take (n * 784) (drop 16 s)) (int n) 784"
      using assms True by (simp add: loadImages_def loadImages_try_ok req)
    also have "\<dots> = (if 16 + n * 784 \<le> length s then Inr (chunks n 784 (drop 16 s))
                       else Inl ValueError)"
      using complete by (simp add: np_reshape_rows chunks_take del: length_take)
    finally show ?thesis using True by (auto simp: n_def)
  next
    case False
    then have "loadImages_try LittleEndian mem s a = (Inl MemoryError, drop 16 s)"
      using assms by (intro loadImages_try_memory) (simp_all add: req)
    then show ?thesis using False by (simp add: loadImages_def n_def)
  qed
qed

text \<open>
  A stream of 19 bytes that declares \<open>0xFFFFFFFF\<close> images, decoded without a count on a host
  that grants buffers up to 1 GiB: the read of \<open>4294967295 * 784\<close> bytes raises
  \<^verbatim>\<open>MemoryError\<close> in the \<^verbatim>\<open>try\<close> block, and the caller gets the
  \<^verbatim>\<open>UnboundLocalError\<close> of the \<^verbatim>\<open>finally\<close> block.
\<close>

lemma huge_declared_count:
  "loadImages_try LittleEndian 1073741824
     [0, 0, 8, 3, 255, 255, 255, 255, 0, 0, 0, 28, 0, 0, 0, 28, 1, 2, 3] None
     = (Inl MemoryError, [1, 2, 3])"
  "loadImages LittleEndian 1073741824
     [0, 0, 8, 3, 255, 255, 255, 255, 0, 0, 0, 28, 0, 0, 0, 28, 1, 2, 3] None
     = Inl (UnboundLocalError ''res'')"
  by (simp_all add: loadImages_def loadImages_try_def read_u32_def struct_unpack_def
      gz_read_def be_uint_def)

subsection \<open>loadLabels on a little-endian host\<close>

lemma loadLabels_try_header_short:
  "length s < 8 \<Longrightarrow> \<exists>e. fst (loadLabels_try host mem s a) = Inl e"
  by (auto simp: loadLabels_try_def read_u32_def struct_unpack_def
      split: option.splits sum.splits)

lemma loadLabels_try_magic:
  assumes "4 \<le> length s" "be_u32_at s 0 \<noteq> 0x801"
  shows "loadLabels_try LittleEndian mem s a
           = (Inl (PyException ''Invalid file: unexpected magic number.'' []), drop 4 s)"
  using assms by (simp add: loadLabels_try_def read_u32_LE magic_label_at)

lemma loadLabels_try_count:
  assumes "8 \<le> length s" "be_u32_at s 0 = 0x801" "k > be_u32_at s 4"
  shows "loadLabels_try LittleEndian mem s (Some k)
           = (Inl (PyException ''Unable to read {0} entires from label file.'' [k]), drop 8 s)"
  using assms
  by (simp add: loadLabels_try_def read_u32_LE magic_label_at read_u32_BE be_u32_at_drop)

lemma loadLabels_try_negative:
  assumes "8 \<le> length s" "be_u32_at s 0 = 0x801"
    and "requestedCount a (be_u32_at s 4) < - 1"
  shows "loadLabels_try LittleEndian mem s a = (Inl ValueError, drop 8 s)"
  using assms be_u32_at_nonneg [of s 4]
  by (auto simp add: loadLabels_try_def read_u32_LE magic_label_at read_u32_BE be_u32_at_drop
      requestedCount_def gz_read_def split: option.splits)

lemma loadLabels_try_ok:
  assumes "8 \<le> length s" "be_u32_at s 0 = 0x801"
    and "requestedCount a (be_u32_at s 4) \<le> be_u32_at s 4"
    and "0 \<le> requestedCount a (be_u32_at s 4)"
    and "8 + nat (requestedCount a (be_u32_at s 4)) \<le> length s
           \<or> nat (requestedCount a (be_u32_at s 4)) \<le> mem"
  shows "loadLabels_try LittleEndian mem s a
           = (Inr \<lparr>n_images = requestedCount a (be_u32_at s 4),
                   res = take (nat (requestedCount a (be_u32_at s 4))) (drop 8 s)\<rparr>,
              drop (8 + nat (requestedCount a (be_u32_at s 4))) s)"
  using assms
  by (auto simp add: loadLabels_try_def read_u32_LE magic_label_at read_u32_BE be_u32_at_drop
      requestedCount_def gz_read_def add.commute split: option.splits)

lemma loadLabels_try_memory:
  assumes "8 \<le> length s" "be_u32_at s 0 = 0x801"
    and "requestedCount a (be_u32_at s 4) \<le> be_u32_at s 4"
    and "0 \<le> requestedCount a (be_u32_at s 4)"
    and "length s < 8 + nat (requestedCount a (be_u32_at s 4))"
    and "mem < nat (requestedCount a (be_u32_at s 4))"
  shows "loadLabels_try LittleEndian mem s a = (Inl MemoryError, drop 8 s)"
  using assms
  by (auto simp add: loadLabels_try_def read_u32_LE magic_label_at read_u32_BE be_u32_at_drop
      requestedCount_def gz_read_def add.commute split: option.splits)

lemma loadLabels_raises:
  "fst (loadLabels_try host mem s a) = Inl e \<Longrightarrow> loadLabels host mem s a = Inl (UnboundLocalError ''res'')"
  by (simp add: loadLabels_def)

lemma loadLabels_ok:
  assumes "8 \<le> length s" "be_u32_at s 0 = 0x801"
    and "requestedCount a (be_u32_at s 4) \<le> be_u32_at s 4"
    and "0 \<le> requestedCount a (be_u32_at s 4)"
  shows "loadLabels LittleEndian mem s a
           = (if 8 + nat (requestedCount a (be_u32_at s 4)) \<le> length s
              then Inr (chunks (nat (requestedCount a (be_u32_at s 4))) 1 (drop 8 s))
              else if nat (requestedCount a (be_u32_at s 4)) \<le> mem
              then Inl ValueError
              else Inl (UnboundLocalError ''res''))"
proof -
  define n where "n = nat (requestedCount a (be_u32_at s 4))"
  have req: "requestedCount a (be_u32_at s 4) = int n"
    using assms(4) by (simp add: n_def)
  show ?thesis
  proof (cases "8 + n \<le> length s \<or> n \<le> mem")
    case True
    have complete: "(int n = int (length (take n (drop 8 s)))) = (8 + n \<le> length s)"
      using assms(1) by (auto simp: min_def)
    have "loadLabels LittleEndian mem s a = np_reshape (take n (drop 8 s)) (int n) 1"
      using assms True by (simp add: loadLabels_def loadLabels_try_ok req)
    also have "\<dots> = (if 8 + n \<le> length s then Inr (chunks n 1 (drop 8 s))
                       else Inl ValueError)"
      using complete chunks_take [of n 1 "drop 8 s"]
      by (simp add: np_reshape_rows del: length_take)
    finally show ?thesis using True by (auto simp: n_def)
  next
    case False
    then have "loadLabels_try LittleEndian mem s a = (Inl MemoryError, drop 8 s)"
      using assms by (intro loadLabels_try_memory) (simp_all add: req)
    then show ?thesis using False by (simp add: loadLabels_def n_def)
  qed
qed

subsection \<open>Bytes the decoders do not reach\<close>

lemma loadImages_prefix:
  assumes "16 + n * 784 \<le> k"
  shows "loadImages host mem (take k s) (Some (int n)) = loadImages host mem s (Some (int n))"
proof -
  have "fst (loadImages_try host mem (take k s) (Some (int n)))
          = fst (loadImages_try host mem s (Some (int n)))"
    using assms
    by (auto simp: loadImages_try_def read_u32_def gz_read_def drop_take min_def
        nat_mult_distrib
        split: sum.splits prod.splits)
  then show ?thesis by (simp add: loadImages_def)
qed

lemma loadLabels_prefix:
  assumes "8 + n \<le> k"
  shows "loadLabels host mem (take k s) (Some (int n)) = loadLabels host mem s (Some (int n))"
proof -
  have "fst (loadLabels_try host mem (take k s) (Some (int n)))
          = fst (loadLabels_try host mem s (Some (int n)))"
    using assms
    by (auto simp: loadLabels_try_def read_u32_def gz_read_def drop_take min_def
        split: sum.splits prod.splits)
  then show ?thesis by (simp add: loadLabels_def)
qed

subsection \<open>What a returned value implies\<close>

lemma loadImages_Inr_D:
  assumes "loadImages LittleEndian mem s a = Inr imgs"
  shows "16 \<le> length s \<and> be_u32_at s 0 = 0x803 \<and> be_u32_at s 8 = 28 \<and> be_u32_at s 12 = 28
           \<and> 0 \<le> requestedCount a (be_u32_at s 4)
           \<and> requestedCount a (be_u32_at s 4) \<le> be_u32_at s 4
           \<and> 16 + nat (requestedCount a (be_u32_at s 4)) * 784 \<le> length s
           \<and> imgs = chunks (nat (requestedCount a (be_u32_at s 4))) 784 (drop 16 s)"
proof -
  let ?c = "be_u32_at s 4"
  have no_exc: "fst (loadImages_try LittleEndian mem s a) \<noteq> Inl e" for e
    using assms loadImages_raises [of LittleEndian mem s a e] by auto
  have len: "16 \<le> length s"
    using no_exc loadImages_try_header_short [of s LittleEndian mem a] by fastforce
  have magic: "be_u32_at s 0 = 0x803"
    using no_exc len loadImages_try_magic [of s mem a] by fastforce
  have count: "requestedCount a ?c \<le> ?c"
  proof (cases a)
    case None
    then show ?thesis by (simp add: requestedCount_def)
  next
    case (Some k)
    then show ?thesis
      using no_exc len magic loadImages_try_count [of s k mem]
      by (fastforce simp: requestedCount_def)
  qed
  have dims: "be_u32_at s 8 = 28 \<and> be_u32_at s 12 = 28"
    using no_exc len magic count loadImages_try_dims [of s a mem] by fastforce
  have nonneg: "0 \<le> requestedCount a ?c"
    using no_exc len magic count dims loadImages_try_negative [of s a mem] by fastforce
  from assms loadImages_ok [OF len magic count _ _ nonneg] dims
  have "16 + nat (requestedCount a ?c) * 784 \<le> length s
          \<and> imgs = chunks (nat (requestedCount a ?c)) 784 (drop 16 s)"
    by (auto split: if_splits)
  with len magic count dims nonneg show ?thesis by blast
qed

lemma loadLabels_Inr_D:
  assumes "loadLabels LittleEndian mem t b = Inr lbls"
  shows "8 \<le> length t \<and> be_u32_at t 0 = 0x801
           \<and> - 1 \<le> requestedCount b (be_u32_at t 4)
           \<and> requestedCount b (be_u32_at t 4) \<le> be_u32_at t 4
           \<and> (0 \<le> requestedCount b (be_u32_at t 4) \<longrightarrow>
                 8 + nat (requestedCount b (be_u32_at t 4)) \<le> length t
                 \<and> lbls = chunks (nat (requestedCount b (be_u32_at t 4))) 1 (drop 8 t))"
proof -
  let ?c = "be_u32_at t 4"
  have no_exc: "fst (loadLabels_try LittleEndian mem t b) \<noteq> Inl e" for e
    using assms loadLabels_raises [of LittleEndian mem t b e] by auto
  have len: "8 \<le> length t"
    using no_exc loadLabels_try_header_short [of t LittleEndian mem b] by fastforce
  have magic: "be_u32_at t 0 = 0x801"
    using no_exc len loadLabels_try_magic [of t mem b] by fastforce
  have count: "requestedCount b ?c \<le> ?c"
  proof (cases b)
    case None
    then show ?thesis by (simp add: requestedCount_def)
  next
    case (Some k)
    then show ?thesis
      using no_exc len magic loadLabels_try_count [of t k mem]
      by (fastforce simp: requestedCount_def)
  qed
  have lower: "- 1 \<le> requestedCount b ?c"
    using no_exc len magic loadLabels_try_negative [of t b mem] by fastforce
  have "8 + nat (requestedCount b ?c) \<le> length t
          \<and> lbls = chunks (nat (requestedCount b ?c)) 1 (drop 8 t)"
    if "0 \<le> requestedCount b ?c"
    using assms loadLabels_ok [OF len magic count that] by (auto split: if_splits)
  with len magic count lower show ?thesis by blast
qed

subsection \<open>vectorized\_digit\<close>

lemma vectorized_digit_in_range:
  assumes "0 \<le> j" "j \<le> 9"
  shows "vectorized_digit (Scalar j) = Inr ((replicate 10 0)[nat j := 1])"
    and "vectorized_digit (IntArray [j]) = Inr ((replicate 10 0)[nat j := 1])"
  using assms by (simp_all add: vectorized_digit_def np_setitem_def)

lemma vectorized_digit_above:
  assumes "9 < j"
  shows "vectorized_digit (Scalar j) = Inl IndexError"
    and "vectorized_digit (IntArray [j]) = Inl IndexError"
  using assms by (simp_all add: vectorized_digit_def np_setitem_def)

lemma one_hot_3: "vectorized_digit (IntArray [3]) = Inr [0, 0, 0, 1, 0, 0, 0, 0, 0, 0]"
  by (simp add: vectorized_digit_def np_setitem_def numeral_eq_Suc)

lemma one_hot_7: "vectorized_digit (IntArray [7]) = Inr [0, 0, 0, 0, 0, 0, 0, 1, 0, 0]"
  by (simp add: vectorized_digit_def np_setitem_def numeral_eq_Suc)

subsection \<open>A call without a count\<close>

lemma loadImages_try_None:
  "loadImages_try host mem s None = loadImages_try host mem s (Some (be_u32_at s 4))"
  by (simp add: loadImages_try_def read_u32_def struct_unpack_def be_u32_at_def
      split: sum.splits prod.splits)

lemma loadLabels_try_None:
  "loadLabels_try host mem s None = loadLabels_try host mem s (Some (be_u32_at s 4))"
  by (simp add: loadLabels_try_def read_u32_def struct_unpack_def be_u32_at_def
      split: sum.splits prod.splits)

section \<open>The claims\<close>

text \<open>
  The loader's comments are written for a machine that stores the least significant byte
  first, and the theorems below are about such a host (\<open>LittleEndian\<close>) unless they hold
  for both. They hold for every size \<open>mem\<close> of the largest buffer the host grants, unless
  they say otherwise. A requested count \<open>n\<close> is a natural number, passed as
  \<open>Some (int n)\<close>; the declared count of a stream \<open>s\<close> is \<open>be_u32_at s 4\<close>.
\<close>

text \<open>
  C1: for a valid image stream (magic \<open>0x00000803\<close>, 28 rows, 28 columns), a requested
  count \<open>n\<close> that is at most the declared count, and at least \<open>n * 784\<close> data bytes
  after the 16 header bytes, \<open>loadImages\<close> returns exactly \<open>n\<close> records of exactly
  784 bytes each, and record \<open>i\<close> is the \<open>i\<close>-th block of 784 bytes of the data section,
  in stream order.
\<close>

theorem loadImages_records:
  assumes "be_u32_at s 0 = 0x803" and "be_u32_at s 8 = 28" and "be_u32_at s 12 = 28"
    and "int n \<le> be_u32_at s 4"
    and "16 + n * 784 \<le> length s"
  shows "\<exists>imgs. loadImages LittleEndian mem s (Some (int n)) = Inr imgs
           \<and> length imgs = n
           \<and> (\<forall>i<n. length (imgs ! i) = 784
                     \<and> imgs ! i = take 784 (drop (16 + i * 784) s))"
proof -
  let ?imgs = "chunks n 784 (drop 16 s)"
  from assms have "loadImages LittleEndian mem s (Some (int n)) = Inr ?imgs"
    by (simp add: loadImages_ok requestedCount_def)
  moreover have "length ?imgs = n"
    by (rule length_chunks)
  moreover have "length (?imgs ! i) = 784 \<and> ?imgs ! i = take 784 (drop (16 + i * 784) s)"
    if "i < n" for i
  proof -
    from that have "Suc i * 784 \<le> n * 784" by simp
    with assms(5) have "16 + i * 784 + 784 \<le> length s" by simp
    then show ?thesis using that by (simp add: chunks_nth add.commute)
  qed
  ultimately show ?thesis by blast
qed

theorem loadImages_records_witness:
  "loadImages LittleEndian 1073741824
     ([0, 0, 8, 3, 0, 0, 0, 2, 0, 0, 0, 28, 0, 0, 0, 28] @ replicate 784 1 @ replicate 784 2)
     (Some 2) = Inr [replicate 784 1, replicate 784 2]"
proof -
  let ?s = "[0, 0, 8, 3, 0, 0, 0, 2, 0, 0, 0, 28, 0, 0, 0, 28]
              @ replicate 784 1 @ replicate 784 (2 :: byte)"
  have "be_u32_at ?s 0 = 0x803" "be_u32_at ?s 8 = 28" "be_u32_at ?s 12 = 28"
    "int 2 \<le> be_u32_at ?s 4" "16 + 2 * 784 \<le> length ?s"
    by (simp_all add: be_u32_at_def be_uint_def)
  from loadImages_records [OF this, of 1073741824] obtain imgs
    where r: "loadImages LittleEndian 1073741824 ?s (Some (int 2)) = Inr imgs"
      and len: "length imgs = 2"
      and rows: "\<forall>i<2. length (imgs ! i) = 784 \<and> imgs ! i = take 784 (drop (16 + i * 784) ?s)"
    by blast
  from rows have "imgs ! 0 = take 784 (drop (16 + 0 * 784) ?s)"
    and "imgs ! 1 = take 784 (drop (16 + 1 * 784) ?s)"
    by simp_all
  then have "imgs ! 0 = replicate 784 1" and "imgs ! 1 = replicate 784 2"
    by simp_all
  with len have "imgs = [replicate 784 1, replicate 784 2]"
    by (auto simp: length_Suc_conv numeral_2_eq_2)
  with r show ?thesis by simp
qed

text \<open>
  C2: the end-to-end scenario. The image stream has magic \<open>0x00000803\<close>, count 2, 28 rows,
  28 columns and \<open>2 * 784\<close> arbitrary pixel bytes \<open>px\<close>; the label stream has magic
  \<open>0x00000801\<close>, count 2 and the label bytes 3 and 7. \<open>mnist_load\<close> with the count 2
  returns the output of the image decoder beside the one-hot vectors of the output of the
  label decoder, two of each, paired by position; the vector of the second label has its
  1.0 at index 7 and 0.0 elsewhere.
\<close>

theorem mnist_load_scenario:
  assumes "length px = 2 * 784"
  shows "\<exists>images labels vectors.
           loadImages LittleEndian mem ([0, 0, 8, 3, 0, 0, 0, 2, 0, 0, 0, 28, 0, 0, 0, 28] @ px) (Some 2)
             = Inr images
         \<and> loadLabels LittleEndian mem [0, 0, 8, 1, 0, 0, 0, 2, 3, 7] (Some 2) = Inr labels
         \<and> mnist_load LittleEndian mem ([0, 0, 8, 3, 0, 0, 0, 2, 0, 0, 0, 28, 0, 0, 0, 28] @ px)
             [0, 0, 8, 1, 0, 0, 0, 2, 3, 7] (Some 2) = Inr (images, vectors)
         \<and> images = [take 784 px, drop 784 px]
         \<and> labels = [[3], [7]]
         \<and> vectors = [[0, 0, 0, 1, 0, 0, 0, 0, 0, 0], [0, 0, 0, 0, 0, 0, 0, 1, 0, 0]]
         \<and> length (zip images vectors) = 2
         \<and> vectors ! 1 ! 7 = 1
         \<and> (\<forall>i<10. i \<noteq> 7 \<longrightarrow> vectors ! 1 ! i = 0)"
proof -
  let ?s = "[0, 0, 8, 3, 0, 0, 0, 2, 0, 0, 0, 28, 0, 0, 0, 28] @ px"
  let ?t = "[0, 0, 8, 1, 0, 0, 0, 2, 3, 7] :: byte list"
  have hdr: "16 \<le> length ?s" "be_u32_at ?s 0 = 0x803" "be_u32_at ?s 8 = 28"
    "be_u32_at ?s 12 = 28" "be_u32_at ?s 4 = 2"
    by (simp_all add: be_u32_at_def be_uint_def)
  have img: "loadImages LittleEndian mem ?s (Some 2) = Inr [take 784 px, drop 784 px]"
    using hdr assms loadImages_ok [of ?s "Some 2" mem]
    by (simp add: requestedCount_def numeral_2_eq_2)
  have lhdr: "8 \<le> length ?t" "be_u32_at ?t 0 = 0x801" "be_u32_at ?t 4 = 2"
    by (simp_all add: be_u32_at_def be_uint_def)
  have lbl: "loadLabels LittleEndian mem ?t (Some 2) = Inr [[3], [7]]"
    using lhdr loadLabels_ok [of ?t "Some 2" mem]
    by (simp add: requestedCount_def numeral_2_eq_2)
  have vec: "vectorize_loop [[3], [7]] []
               = Inr [[0, 0, 0, 1, 0, 0, 0, 0, 0, 0], [0, 0, 0, 0, 0, 0, 0, 1, 0, 0]]"
    by (simp add: one_hot_3 one_hot_7)
  have all: "mnist_load LittleEndian mem ?s ?t (Some 2)
        = Inr ([take 784 px, drop 784 px],
               [[0, 0, 0, 1, 0, 0, 0, 0, 0, 0], [0, 0, 0, 0, 0, 0, 0, 1, 0, 0]])"
    by (simp only: mnist_load_def img lbl vec sum.case)
  have others: "\<forall>i<10. i \<noteq> 7 \<longrightarrow>
          [[0, 0, 0, 1, 0, 0, 0, 0, 0, 0], [0, 0, 0, 0, 0, 0, 0, 1, 0, 0 :: real]] ! 1 ! i = 0"
    by (simp add: nth_Cons' )
  show ?thesis using img lbl all others by simp
qed

theorem mnist_load_scenario_witness:
  "mnist_load LittleEndian 1073741824
     ([0, 0, 8, 3, 0, 0, 0, 2, 0, 0, 0, 28, 0, 0, 0, 28] @ replicate 784 1 @ replicate 784 2)
     [0, 0, 8, 1, 0, 0, 0, 2, 3, 7] (Some 2)
     = Inr ([replicate 784 1, replicate 784 2],
            [[0, 0, 0, 1, 0, 0, 0, 0, 0, 0], [0, 0, 0, 0, 0, 0, 0, 1, 0, 0]])"
  using mnist_load_scenario [of "replicate 784 1 @ replicate 784 2" 1073741824] by simp

text \<open>
  C3: for a label \<open>j\<close> from 0 to 9, \<open>vectorized_digit\<close> returns a vector of 10 entries
  with 1.0 at index \<open>j\<close> and 0.0 at every other index; for \<open>j > 9\<close> it fails with the
  out-of-range error of the indexing (\<^verbatim>\<open>IndexError\<close>). Both hold for \<open>j\<close> passed as a
  number and as the one-element row that \<open>mnist_load\<close> passes.
\<close>

theorem vectorized_digit_one_hot:
  "(0 \<le> j \<and> j \<le> 9 \<longrightarrow>
      (\<exists>v. vectorized_digit (Scalar j) = Inr v \<and> vectorized_digit (IntArray [j]) = Inr v
           \<and> length v = 10 \<and> v ! nat j = 1 \<and> (\<forall>i<10. i \<noteq> nat j \<longrightarrow> v ! i = 0)))
   \<and> (9 < j \<longrightarrow>
      vectorized_digit (Scalar j) = Inl IndexError
      \<and> vectorized_digit (IntArray [j]) = Inl IndexError)"
proof -
  have "\<exists>v. vectorized_digit (Scalar j) = Inr v \<and> vectorized_digit (IntArray [j]) = Inr v
           \<and> length v = 10 \<and> v ! nat j = 1 \<and> (\<forall>i<10. i \<noteq> nat j \<longrightarrow> v ! i = 0)"
    if "0 \<le> j" "j \<le> 9"
  proof -
    let ?v = "(replicate 10 (0 :: real))[nat j := 1]"
    from that have "nat j < 10" by simp
    then have "length ?v = 10 \<and> ?v ! nat j = 1 \<and> (\<forall>i<10. i \<noteq> nat j \<longrightarrow> ?v ! i = 0)"
      by simp
    with vectorized_digit_in_range [OF that] show ?thesis by blast
  qed
  then show ?thesis using vectorized_digit_above [of j] by blast
qed

theorem vectorized_digit_one_hot_witness:
  "(\<exists>v. vectorized_digit (Scalar 7) = Inr v \<and> vectorized_digit (IntArray [7]) = Inr v
        \<and> length v = 10 \<and> v ! 7 = 1 \<and> (\<forall>i<10. i \<noteq> 7 \<longrightarrow> v ! i = 0))
   \<and> vectorized_digit (Scalar 10) = Inl IndexError
   \<and> vectorized_digit (IntArray [10]) = Inl IndexError"
  using vectorized_digit_one_hot [of 7] vectorized_digit_one_hot [of 10] by simp

text \<open>
  C4, as amended: for a stream of at least 4 bytes whose first 4 bytes, read as a big-endian
  unsigned integer, are not the expected magic number (\<open>0x00000803\<close> for \<open>loadImages\<close>,
  \<open>0x00000801\<close> for \<open>loadLabels\<close>), the decoder raises, inside its \<^verbatim>\<open>try\<close> block, the
  exception with the fixed message \<^verbatim>\<open>Invalid file: unexpected magic number.\<close>, which names
  neither the expected nor the observed number; it has then read the 4 bytes of the magic
  number and nothing else, and the call returns no result.
\<close>

theorem wrong_magic_fails:
  assumes "4 \<le> length s"
  shows "(be_u32_at s 0 \<noteq> 0x803 \<longrightarrow>
            loadImages_try LittleEndian mem s a
              = (Inl (PyException ''Invalid file: unexpected magic number.'' []), drop 4 s)
            \<and> (\<exists>e. loadImages LittleEndian mem s a = Inl e))
       \<and> (be_u32_at s 0 \<noteq> 0x801 \<longrightarrow>
            loadLabels_try LittleEndian mem s a
              = (Inl (PyException ''Invalid file: unexpected magic number.'' []), drop 4 s)
            \<and> (\<exists>e. loadLabels LittleEndian mem s a = Inl e))"
  using assms
  by (simp add: loadImages_try_magic loadLabels_try_magic loadImages_def loadLabels_def)

theorem wrong_magic_fails_witness:
  "loadImages_try LittleEndian 1073741824 [0, 0, 8, 1, 0, 0, 0, 1, 5] None
     = (Inl (PyException ''Invalid file: unexpected magic number.'' []), [0, 0, 0, 1, 5])
   \<and> (\<exists>e. loadImages LittleEndian 1073741824 [0, 0, 8, 1, 0, 0, 0, 1, 5] None = Inl e)
   \<and> loadLabels_try LittleEndian 1073741824 [1, 0, 8, 1, 0, 0, 0, 1, 5] None
     = (Inl (PyException ''Invalid file: unexpected magic number.'' []), [0, 0, 0, 1, 5])
   \<and> (\<exists>e. loadLabels LittleEndian 1073741824 [1, 0, 8, 1, 0, 0, 0, 1, 5] None = Inl e)"
  using wrong_magic_fails [of "[0, 0, 8, 1, 0, 0, 0, 1, 5]" 1073741824 None]
    wrong_magic_fails [of "[1, 0, 8, 1, 0, 0, 0, 1, 5]" 1073741824 None]
  by (simp add: be_u32_at_def be_uint_def)

text \<open>
  C4, the claim as stated fails: two streams with different wrong magic numbers
  (\<open>0x00000801\<close> and \<open>0x00000802\<close>) end \<open>loadImages\<close> with one and the same exception,
  in the \<^verbatim>\<open>try\<close> block and for the caller, so the error does not identify the observed
  magic number.
\<close>

theorem wrong_magic_counterexample:
  "be_u32_at [0, 0, 8, 1, 0, 0, 0, 1, 5] 0 = 0x801
   \<and> be_u32_at [0, 0, 8, 2, 0, 0, 0, 1, 5] 0 = 0x802
   \<and> loadImages_try LittleEndian 1073741824 [0, 0, 8, 1, 0, 0, 0, 1, 5] None
       = (Inl (PyException ''Invalid file: unexpected magic number.'' []), [0, 0, 0, 1, 5])
   \<and> loadImages_try LittleEndian 1073741824 [0, 0, 8, 2, 0, 0, 0, 1, 5] None
       = (Inl (PyException ''Invalid file: unexpected magic number.'' []), [0, 0, 0, 1, 5])
   \<and> loadImages LittleEndian 1073741824 [0, 0, 8, 1, 0, 0, 0, 1, 5] None = Inl (UnboundLocalError ''res'')
   \<and> loadImages LittleEndian 1073741824 [0, 0, 8, 2, 0, 0, 0, 1, 5] None = Inl (UnboundLocalError ''res'')"
  by (simp add: loadImages_def loadImages_try_def read_u32_def struct_unpack_def
      be_u32_at_def be_uint_def)

text \<open>
  C5, as amended: for both decoders, when the requested count \<open>k\<close> exceeds the declared
  count of a stream with a complete, valid 8-byte prefix, the decoder raises, inside its
  \<^verbatim>\<open>try\<close> block, the exception \<^verbatim>\<open>Unable to read {0} entries from data file.\<close>
  (\<^verbatim>\<open>Unable to read {0} entires from label file.\<close> for labels) formatted with the
  requested count only, and the call returns no result. A call without a count behaves as
  the call with the declared count.
\<close>

theorem count_exceeds_declared:
  "(8 \<le> length s \<and> be_u32_at s 0 = 0x803 \<and> be_u32_at s 4 < k \<longrightarrow>
      loadImages_try LittleEndian mem s (Some k)
        = (Inl (PyException ''Unable to read {0} entries from data file.'' [k]), drop 8 s)
      \<and> (\<exists>e. loadImages LittleEndian mem s (Some k) = Inl e))
   \<and> (8 \<le> length t \<and> be_u32_at t 0 = 0x801 \<and> be_u32_at t 4 < k \<longrightarrow>
      loadLabels_try LittleEndian mem t (Some k)
        = (Inl (PyException ''Unable to read {0} entires from label file.'' [k]), drop 8 t)
      \<and> (\<exists>e. loadLabels LittleEndian mem t (Some k) = Inl e))
   \<and> loadImages host mem s None = loadImages host mem s (Some (be_u32_at s 4))
   \<and> loadLabels host mem t None = loadLabels host mem t (Some (be_u32_at t 4))"
proof -
  have "loadImages host mem s None = loadImages host mem s (Some (be_u32_at s 4))"
    unfolding loadImages_def by (simp only: loadImages_try_None [symmetric])
  moreover have "loadLabels host mem t None = loadLabels host mem t (Some (be_u32_at t 4))"
    unfolding loadLabels_def by (simp only: loadLabels_try_None [symmetric])
  ultimately show ?thesis
    by (simp add: loadImages_try_count loadLabels_try_count loadImages_def loadLabels_def)
qed

theorem count_exceeds_declared_witness:
  "loadImages_try LittleEndian 1073741824 [0, 0, 8, 3, 0, 0, 0, 1, 0, 0, 0, 28, 0, 0, 0, 28] (Some 5)
     = (Inl (PyException ''Unable to read {0} entries from data file.'' [5]),
        [0, 0, 0, 28, 0, 0, 0, 28])
   \<and> (\<exists>e. loadImages LittleEndian 1073741824 [0, 0, 8, 3, 0, 0, 0, 1, 0, 0, 0, 28, 0, 0, 0, 28] (Some 5)
          = Inl e)
   \<and> loadLabels_try LittleEndian 1073741824 [0, 0, 8, 1, 0, 0, 0, 2, 3, 7] (Some 5)
     = (Inl (PyException ''Unable to read {0} entires from label file.'' [5]), [3, 7])
   \<and> (\<exists>e. loadLabels LittleEndian 1073741824 [0, 0, 8, 1, 0, 0, 0, 2, 3, 7] (Some 5) = Inl e)"
  using count_exceeds_declared [of "[0, 0, 8, 3, 0, 0, 0, 1, 0, 0, 0, 28, 0, 0, 0, 28]" 5
      1073741824 "[0, 0, 8, 1, 0, 0, 0, 2, 3, 7]" LittleEndian]
  by (simp add: be_u32_at_def be_uint_def)

text \<open>
  C5, the claim as stated fails: two streams that declare 1 and 2 entries end a request for
  5 entries with one and the same exception, which holds the requested count 5 and not the
  available count.
\<close>

theorem count_exceeded_counterexample:
  "be_u32_at [0, 0, 8, 3, 0, 0, 0, 1, 0, 0, 0, 28, 0, 0, 0, 28] 4 = 1
   \<and> be_u32_at [0, 0, 8, 3, 0, 0, 0, 2, 0, 0, 0, 28, 0, 0, 0, 28] 4 = 2
   \<and> fst (loadImages_try LittleEndian 1073741824 [0, 0, 8, 3, 0, 0, 0, 1, 0, 0, 0, 28, 0, 0, 0, 28] (Some 5))
       = Inl (PyException ''Unable to read {0} entries from data file.'' [5])
   \<and> fst (loadImages_try LittleEndian 1073741824 [0, 0, 8, 3, 0, 0, 0, 2, 0, 0, 0, 28, 0, 0, 0, 28] (Some 5))
       = Inl (PyException ''Unable to read {0} entries from data file.'' [5])
   \<and> loadImages LittleEndian 1073741824 [0, 0, 8, 3, 0, 0, 0, 1, 0, 0, 0, 28, 0, 0, 0, 28] (Some 5)
       = Inl (UnboundLocalError ''res'')
   \<and> loadImages LittleEndian 1073741824 [0, 0, 8, 3, 0, 0, 0, 2, 0, 0, 0, 28, 0, 0, 0, 28] (Some 5)
       = Inl (UnboundLocalError ''res'')"
  by (simp add: loadImages_def loadImages_try_def read_u32_def struct_unpack_def
      be_u32_at_def be_uint_def)

text \<open>
  C6, as amended: \<open>loadImages\<close> compares the requested count with the declared count
  before it reads the rows and columns. For an image stream (16 header bytes, valid magic
  number) whose rows or columns are not 28: when there is no requested count, or it is at
  most the declared count, the decoder raises
  \<^verbatim>\<open>Invalid file: expected 28 rows & cols per img\<close>; when the requested count exceeds the
  declared count it raises \<^verbatim>\<open>Unable to read {0} entries from data file.\<close> and has not
  read the dimensions. In both cases the call returns no result.
\<close>

theorem dimension_check_after_count_check:
  assumes "16 \<le> length s" and "be_u32_at s 0 = 0x803"
    and "be_u32_at s 8 \<noteq> 28 \<or> be_u32_at s 12 \<noteq> 28"
  shows "(requestedCount a (be_u32_at s 4) \<le> be_u32_at s 4 \<longrightarrow>
            loadImages_try LittleEndian mem s a
              = (Inl (PyException ''Invalid file: expected 28 rows & cols per img'' []),
                 drop 16 s))
       \<and> (be_u32_at s 4 < k \<longrightarrow>
            loadImages_try LittleEndian mem s (Some k)
              = (Inl (PyException ''Unable to read {0} entries from data file.'' [k]),
                 drop 8 s))
       \<and> (\<exists>e. loadImages LittleEndian mem s a = Inl e)"
proof -
  have "\<exists>e. loadImages LittleEndian mem s a = Inl e"
  proof (cases "loadImages LittleEndian mem s a")
    case (Inl e)
    then show ?thesis by blast
  next
    case (Inr imgs)
    from loadImages_Inr_D [OF this] assms(3) show ?thesis by blast
  qed
  then show ?thesis
    using assms by (simp add: loadImages_try_dims loadImages_try_count)
qed

theorem dimension_check_after_count_check_witness:
  "loadImages_try LittleEndian 1073741824 [0, 0, 8, 3, 0, 0, 0, 1, 0, 0, 0, 27, 0, 0, 0, 28] (Some 1)
     = (Inl (PyException ''Invalid file: expected 28 rows & cols per img'' []), [])
   \<and> loadImages_try LittleEndian 1073741824 [0, 0, 8, 3, 0, 0, 0, 1, 0, 0, 0, 27, 0, 0, 0, 28] (Some 2)
     = (Inl (PyException ''Unable to read {0} entries from data file.'' [2]),
        [0, 0, 0, 27, 0, 0, 0, 28])
   \<and> (\<exists>e. loadImages LittleEndian 1073741824 [0, 0, 8, 3, 0, 0, 0, 1, 0, 0, 0, 27, 0, 0, 0, 28] (Some 1)
          = Inl e)"
  using dimension_check_after_count_check
    [of "[0, 0, 8, 3, 0, 0, 0, 1, 0, 0, 0, 27, 0, 0, 0, 28]" "Some 1" 1073741824 2]
  by (simp add: be_u32_at_def be_uint_def requestedCount_def)

text \<open>
  C6, the claim as stated fails: for a stream with 27 rows that declares 1 entry, a request
  for 2 entries ends with the exception of the count check, not with the exception of the
  dimension check, and the 8 bytes of the dimensions are still unread.
\<close>

theorem dimension_check_counterexample:
  "be_u32_at [0, 0, 8, 3, 0, 0, 0, 1, 0, 0, 0, 27, 0, 0, 0, 28] 8 = 27
   \<and> be_u32_at [0, 0, 8, 3, 0, 0, 0, 1, 0, 0, 0, 27, 0, 0, 0, 28] 4 = 1
   \<and> loadImages_try LittleEndian 1073741824 [0, 0, 8, 3, 0, 0, 0, 1, 0, 0, 0, 27, 0, 0, 0, 28] (Some 2)
       = (Inl (PyException ''Unable to read {0} entries from data file.'' [2]),
          [0, 0, 0, 27, 0, 0, 0, 28])
   \<and> fst (loadImages_try LittleEndian 1073741824 [0, 0, 8, 3, 0, 0, 0, 1, 0, 0, 0, 27, 0, 0, 0, 28] (Some 2))
       \<noteq> Inl (PyException ''Invalid file: expected 28 rows & cols per img'' [])"
  by (simp add: loadImages_try_def read_u32_def struct_unpack_def be_u32_at_def be_uint_def)



text \<open>
  C8: a decode that fails returns no value. Whenever one of the failure reasons holds
  (the header is incomplete or the data is truncated, the magic number is wrong, rows or
  columns are not 28, the requested count exceeds the declared count), \<open>loadImages\<close>
  and \<open>loadLabels\<close> end in an exception, and so does \<open>mnist_load\<close> on such a stream:
  the \<^verbatim>\<open>return\<close> of the \<^verbatim>\<open>finally\<close> block never delivers a partial array.
\<close>

theorem failed_decode_returns_nothing:
  assumes "length s < 16 \<or> be_u32_at s 0 \<noteq> 0x803
             \<or> be_u32_at s 8 \<noteq> 28 \<or> be_u32_at s 12 \<noteq> 28
             \<or> be_u32_at s 4 < requestedCount a (be_u32_at s 4)
             \<or> length s < 16 + nat (requestedCount a (be_u32_at s 4)) * 784"
    and "length t < 8 \<or> be_u32_at t 0 \<noteq> 0x801
             \<or> be_u32_at t 4 < requestedCount b (be_u32_at t 4)
             \<or> length t < 8 + nat (requestedCount b (be_u32_at t 4))"
  shows "(\<exists>e. loadImages LittleEndian mem s a = Inl e)
       \<and> (\<exists>e. loadLabels LittleEndian mem t b = Inl e)
       \<and> (\<exists>e. mnist_load LittleEndian mem s t' a = Inl e)
       \<and> (\<exists>e. mnist_load LittleEndian mem s' t b = Inl e)"
proof -
  have img: "\<exists>e. loadImages LittleEndian mem s a = Inl e"
  proof (cases "loadImages LittleEndian mem s a")
    case (Inl e)
    then show ?thesis by blast
  next
    case (Inr imgs)
    from loadImages_Inr_D [OF this] assms(1) show ?thesis by linarith
  qed
  have lbl: "\<exists>e. loadLabels LittleEndian mem t b = Inl e"
  proof (cases "loadLabels LittleEndian mem t b")
    case (Inl e)
    then show ?thesis by blast
  next
    case (Inr lbls)
    from loadLabels_Inr_D [OF this] assms(2) show ?thesis by (cases "0 \<le> requestedCount b (be_u32_at t 4)") auto
  qed
  from img have "\<exists>e. mnist_load LittleEndian mem s t' a = Inl e"
    by (auto simp: mnist_load_def)
  moreover from lbl have "\<exists>e. mnist_load LittleEndian mem s' t b = Inl e"
    by (auto simp: mnist_load_def split: sum.splits)
  ultimately show ?thesis using img lbl by blast
qed

theorem failed_decode_returns_nothing_witness:
  "(\<exists>e. loadImages LittleEndian 1073741824 [0, 0, 8, 3, 0, 0, 0, 1, 0, 0, 0, 28, 0, 0, 0, 27] (Some 0) = Inl e)
   \<and> (\<exists>e. loadLabels LittleEndian 1073741824 [0, 0, 8, 1, 0, 0, 0, 1, 5] (Some 2) = Inl e)"
  using failed_decode_returns_nothing [of "[0, 0, 8, 3, 0, 0, 0, 1, 0, 0, 0, 28, 0, 0, 0, 27]"
      "Some 0" "[0, 0, 8, 1, 0, 0, 0, 1, 5]" "Some 2" 1073741824]
  by (simp add: be_u32_at_def be_uint_def requestedCount_def)

text \<open>
  C9: on a valid image stream and a valid label stream, \<open>mnist_load\<close> with the count 0
  succeeds and returns no image records and no label vectors.
\<close>

theorem mnist_load_zero:
  assumes "16 \<le> length s" and "be_u32_at s 0 = 0x803"
    and "be_u32_at s 8 = 28" and "be_u32_at s 12 = 28"
    and "8 \<le> length t" and "be_u32_at t 0 = 0x801"
  shows "mnist_load LittleEndian mem s t (Some 0) = Inr ([], [])"
proof -
  have "loadImages LittleEndian mem s (Some 0) = Inr []"
    using assms(1-4) be_u32_at_nonneg [of s 4] loadImages_ok [of s "Some 0" mem]
    by (simp add: requestedCount_def)
  moreover have "loadLabels LittleEndian mem t (Some 0) = Inr []"
    using assms(5-6) be_u32_at_nonneg [of t 4] loadLabels_ok [of t "Some 0" mem]
    by (simp add: requestedCount_def)
  ultimately show ?thesis by (simp add: mnist_load_def)
qed

theorem mnist_load_zero_witness:
  "mnist_load LittleEndian 1073741824
     ([0, 0, 8, 3, 0, 0, 0, 1, 0, 0, 0, 28, 0, 0, 0, 28] @ replicate 784 9)
     [0, 0, 8, 1, 0, 0, 0, 1, 4] (Some 0) = Inr ([], [])"
  using mnist_load_zero [of "[0, 0, 8, 3, 0, 0, 0, 1, 0, 0, 0, 28, 0, 0, 0, 28] @ replicate 784 9"
      "[0, 0, 8, 1, 0, 0, 0, 1, 4]" 1073741824]
  by (simp add: be_u32_at_def be_uint_def)

text \<open>
  C10: the result of a decoder depends only on the bytes it reads. Two image streams that
  agree on their first \<open>16 + n * 784\<close> bytes give the same result for the count \<open>n\<close>, two
  label streams that agree on their first \<open>8 + n\<close> bytes likewise, on any host; so bytes
  appended after the region that is read change nothing and cause no error.
\<close>

theorem unread_bytes_ignored:
  assumes "take (16 + n * 784) sa = take (16 + n * 784) sb"
    and "take (8 + m) ta = take (8 + m) tb"
  shows "loadImages host mem sa (Some (int n)) = loadImages host mem sb (Some (int n))
       \<and> loadLabels host mem ta (Some (int m)) = loadLabels host mem tb (Some (int m))
       \<and> (16 + n * 784 \<le> length sa \<longrightarrow>
            loadImages host mem (sa @ extra) (Some (int n)) = loadImages host mem sa (Some (int n)))
       \<and> (8 + m \<le> length ta \<longrightarrow>
            loadLabels host mem (ta @ extra) (Some (int m)) = loadLabels host mem ta (Some (int m)))"
proof -
  have "loadImages host mem sa (Some (int n)) = loadImages host mem (take (16 + n * 784) sa) (Some (int n))"
    by (simp add: loadImages_prefix)
  also have "\<dots> = loadImages host mem sb (Some (int n))"
    unfolding assms(1) by (simp add: loadImages_prefix)
  finally have img: "loadImages host mem sa (Some (int n)) = loadImages host mem sb (Some (int n))" .
  have "loadLabels host mem ta (Some (int m)) = loadLabels host mem (take (8 + m) ta) (Some (int m))"
    by (simp add: loadLabels_prefix)
  also have "\<dots> = loadLabels host mem tb (Some (int m))"
    unfolding assms(2) by (simp add: loadLabels_prefix)
  finally have lbl: "loadLabels host mem ta (Some (int m)) = loadLabels host mem tb (Some (int m))" .
  have "loadImages host mem (sa @ extra) (Some (int n)) = loadImages host mem sa (Some (int n))"
    if "16 + n * 784 \<le> length sa"
  proof -
    have "loadImages host mem (take (length sa) (sa @ extra)) (Some (int n))
            = loadImages host mem (sa @ extra) (Some (int n))"
      using that by (rule loadImages_prefix)
    then show ?thesis by simp
  qed
  moreover have "loadLabels host mem (ta @ extra) (Some (int m)) = loadLabels host mem ta (Some (int m))"
    if "8 + m \<le> length ta"
  proof -
    have "loadLabels host mem (take (length ta) (ta @ extra)) (Some (int m))
            = loadLabels host mem (ta @ extra) (Some (int m))"
      using that by (rule loadLabels_prefix)
    then show ?thesis by simp
  qed
  ultimately show ?thesis using img lbl by blast
qed

theorem unread_bytes_ignored_witness:
  "loadImages LittleEndian 1073741824 [0, 0, 8, 3, 0, 0, 0, 1, 0, 0, 0, 28, 0, 0, 0, 28, 6, 6] (Some 0)
     = loadImages LittleEndian 1073741824 [0, 0, 8, 3, 0, 0, 0, 1, 0, 0, 0, 28, 0, 0, 0, 28, 9] (Some 0)
   \<and> loadLabels LittleEndian 1073741824 [0, 0, 8, 1, 0, 0, 0, 2, 3, 7, 4, 4] (Some 2)
     = loadLabels LittleEndian 1073741824 [0, 0, 8, 1, 0, 0, 0, 2, 3, 7] (Some 2)"
  using unread_bytes_ignored [of 0 "[0, 0, 8, 3, 0, 0, 0, 1, 0, 0, 0, 28, 0, 0, 0, 28, 6, 6]"
      "[0, 0, 8, 3, 0, 0, 0, 1, 0, 0, 0, 28, 0, 0, 0, 28, 9]" 2
      "[0, 0, 8, 1, 0, 0, 0, 2, 3, 7, 4, 4]" "[0, 0, 8, 1, 0, 0, 0, 2, 3, 7]" LittleEndian
      1073741824]
  by simp

end
